theory Spec2Isabelle
  imports Complex_Main
begin

section \<open>Data supplied by the store\<close>

text \<open>
  The views read three kinds of objects from the store: keyed collections of entries
  (accounts, contacts, contracts), all keyed by address, and the balances object. A
  JavaScript object is modelled as an association list from its keys to its values; the
  entries themselves are opaque to the views, which only pass them on.
\<close>

type_synonym address = string
type_synonym entries = "(address \<times> string) list"
type_synonym balances = "(address \<times> int) list"

text \<open>\<^verbatim>\<open>Object.keys(o)\<close>: every key once, in insertion order.\<close>

definition Object_keys :: "('k \<times> 'v) list \<Rightarrow> 'k list" where
  "Object_keys obj = remdups (map fst obj)"

section \<open>Render trees\<close>

text \<open>
  The elements the four components create. \<open>'h\<close> is the type of the handlers a view
  binds (its arrow-function members); a CSS-module class name is represented by its key
  in the \<^verbatim>\<open>styles\<close> object. \<open>Null\<close> is the \<^verbatim>\<open>null\<close> a
  render helper returns when its dialog is closed.
\<close>

datatype 'h element =
    Null
  | Div string "'h element list"
  | Actionbar string string "'h element list" "'h element list"
  | Button string "'h element" string 'h
  | ContentAdd
  | Page "'h element list"
  | ListE "string option" entries balances bool
  | Tooltip string bool string
  | CreateAccount entries 'h 'h
  | AddAddress entries 'h
  | AddContract entries 'h
  | DeployContract entries 'h
  | CircularProgress real real

text \<open>The modal dialogs are the four components imported from \<^verbatim>\<open>../../modals\<close>.\<close>

fun is_modal :: "'h element \<Rightarrow> bool" where
  "is_modal (CreateAccount a c u) = True"
| "is_modal (AddAddress a c) = True"
| "is_modal (AddContract a c) = True"
| "is_modal (DeployContract a c) = True"
| "is_modal e = False"

text \<open>All modal elements of a render tree, in document order.\<close>

fun modals :: "'h element \<Rightarrow> 'h element list" where
  "modals (Div c ks) = concat (map modals ks)"
| "modals (Actionbar c t bs ks) = concat (map modals bs) @ concat (map modals ks)"
| "modals (Button k i l h) = modals i"
| "modals (Page ks) = concat (map modals ks)"
| "modals e = (if is_modal e then [e] else [])"

text \<open>The \<^verbatim>\<open>empty\<close> flags handed to the \<^verbatim>\<open>List\<close> collaborator, in document order.\<close>

fun list_empty_flags :: "'h element \<Rightarrow> bool list" where
  "list_empty_flags (Div c ks) = concat (map list_empty_flags ks)"
| "list_empty_flags (Actionbar c t bs ks) =
     concat (map list_empty_flags bs) @ concat (map list_empty_flags ks)"
| "list_empty_flags (Button k i l h) = list_empty_flags i"
| "list_empty_flags (Page ks) = concat (map list_empty_flags ks)"
| "list_empty_flags (ListE l a b e) = [e]"
| "list_empty_flags e = []"

text \<open>The \<^verbatim>\<open>onClick\<close> handlers of the buttons of a render tree, in document order.\<close>

fun onClick_handlers :: "'h element \<Rightarrow> 'h list" where
  "onClick_handlers (Div c ks) = concat (map onClick_handlers ks)"
| "onClick_handlers (Actionbar c t bs ks) =
     concat (map onClick_handlers bs) @ concat (map onClick_handlers ks)"
| "onClick_handlers (Button k i l h) = [h]"
| "onClick_handlers (Page ks) = concat (map onClick_handlers ks)"
| "onClick_handlers e = []"

section \<open>Components\<close>

text \<open>
  A mounted component instance: \<^verbatim>\<open>this.props\<close> and \<^verbatim>\<open>this.state\<close>.
  \<^verbatim>\<open>this.setState({f: v})\<close> is the record update of field \<open>f\<close> of the state.
\<close>

record ('p, 's) component =
  props :: 'p
  state :: 's

text \<open>
  Beside its props and state an instance carries more: the three views declare
  \<^verbatim>\<open>contextTypes = { api }\<close>, so each has \<^verbatim>\<open>this.context.api\<close>, the api
  object of the application (opaque here, represented by a name). Such an instance
  extends the record above; the render methods below take any instance, whatever it
  carries beside props and state.
\<close>

record Context =
  api :: string

record ('p, 's) mounted = "('p, 's) component" +
  this_context :: Context

subsection \<open>Accounts\<close>

record AccountsProps =
  acc_accounts :: entries
  acc_hasAccounts :: bool
  acc_balances :: balances

record AccountsState =
  addressBook :: bool
  newDialog :: bool

datatype AccountsHandler = OnNewAccountClick | OnNewAccountClose | OnNewAccountUpdate

type_synonym Accounts = "(AccountsProps, AccountsState) component"

definition Accounts_state :: AccountsState where
  "Accounts_state = \<lparr>addressBook = False, newDialog = False\<rparr>"

definition Accounts_mount :: "AccountsProps \<Rightarrow> Accounts" where
  "Accounts_mount p = \<lparr>props = p, state = Accounts_state\<rparr>"

definition Accounts_renderActionbar :: 
  "(AccountsProps, AccountsState, 'z) component_scheme \<Rightarrow> AccountsHandler element" where
  "Accounts_renderActionbar c =
     (let buttons = [Button ''newAccount'' ContentAdd ''new account'' OnNewAccountClick]
      in Actionbar ''toolbar'' ''Accounts Overview'' buttons
           [Tooltip ''toolbarTooltip'' True
              ''actions relating to the current view are available on the toolbar for quick access, be it for performing actions or creating a new item''])"

definition Accounts_renderNewDialog :: 
  "(AccountsProps, AccountsState, 'z) component_scheme \<Rightarrow> AccountsHandler element" where
  "Accounts_renderNewDialog c =
     (let accounts = acc_accounts (props c); newDialog = newDialog (state c)
      in if \<not> newDialog then Null
         else CreateAccount accounts OnNewAccountClose OnNewAccountUpdate)"

definition Accounts_render :: 
  "(AccountsProps, AccountsState, 'z) component_scheme \<Rightarrow> AccountsHandler element" where
  "Accounts_render c =
     (let accounts = acc_accounts (props c); hasAccounts = acc_hasAccounts (props c);
          balances = acc_balances (props c)
      in Div ''accounts''
           [Accounts_renderNewDialog c,
            Accounts_renderActionbar c,
            Page
              [ListE None accounts balances (\<not> hasAccounts),
               Tooltip ''accountTooltip'' False
                 ''your accounts are visible for easy access, allowing you to edit the meta information, make transfers, view transactions and fund the account'']])"

definition onNewAccountClick :: "Accounts \<Rightarrow> Accounts" where
  "onNewAccountClick c = c\<lparr>state := (state c)\<lparr>newDialog := \<not> newDialog (state c)\<rparr>\<rparr>"

definition onNewAccountClose :: "Accounts \<Rightarrow> Accounts" where
  "onNewAccountClose c = onNewAccountClick c"

definition onNewAccountUpdate :: "Accounts \<Rightarrow> Accounts" where
  "onNewAccountUpdate c = c"

text \<open>Calling a bound handler of the instance.\<close>

fun Accounts_invoke :: "AccountsHandler \<Rightarrow> Accounts \<Rightarrow> Accounts" where
  "Accounts_invoke OnNewAccountClick c = onNewAccountClick c"
| "Accounts_invoke OnNewAccountClose c = onNewAccountClose c"
| "Accounts_invoke OnNewAccountUpdate c = onNewAccountUpdate c"

subsection \<open>Addresses\<close>

record AddressesProps =
  adr_balances :: balances
  adr_contacts :: entries
  adr_hasContacts :: bool

record AddressesState =
  showAdd :: bool

datatype AddressesHandler = OnOpenAdd | OnCloseAdd

type_synonym Addresses = "(AddressesProps, AddressesState) component"

definition Addresses_state :: AddressesState where
  "Addresses_state = \<lparr>showAdd = False\<rparr>"

definition Addresses_mount :: "AddressesProps \<Rightarrow> Addresses" where
  "Addresses_mount p = \<lparr>props = p, state = Addresses_state\<rparr>"

definition Addresses_renderActionbar :: 
  "(AddressesProps, AddressesState, 'z) component_scheme \<Rightarrow> AddressesHandler element" where
  "Addresses_renderActionbar c =
     (let buttons = [Button ''newAddress'' ContentAdd ''new address'' OnOpenAdd]
      in Actionbar ''toolbar'' ''Saved Addresses'' buttons [])"

definition Addresses_renderAddAddress :: 
  "(AddressesProps, AddressesState, 'z) component_scheme \<Rightarrow> AddressesHandler element" where
  "Addresses_renderAddAddress c =
     (let contacts = adr_contacts (props c); showAdd = showAdd (state c)
      in if \<not> showAdd then Null
         else AddAddress contacts OnCloseAdd)"

definition Addresses_render :: 
  "(AddressesProps, AddressesState, 'z) component_scheme \<Rightarrow> AddressesHandler element" where
  "Addresses_render c =
     (let balances = adr_balances (props c); contacts = adr_contacts (props c);
          hasContacts = adr_hasContacts (props c)
      in Div ''addresses''
           [Addresses_renderActionbar c,
            Addresses_renderAddAddress c,
            Page [ListE (Some ''address'') contacts balances (\<not> hasContacts)]])"

definition onOpenAdd :: "Addresses \<Rightarrow> Addresses" where
  "onOpenAdd c = c\<lparr>state := (state c)\<lparr>showAdd := True\<rparr>\<rparr>"

definition onCloseAdd :: "Addresses \<Rightarrow> Addresses" where
  "onCloseAdd c = c\<lparr>state := (state c)\<lparr>showAdd := False\<rparr>\<rparr>"

fun Addresses_invoke :: "AddressesHandler \<Rightarrow> Addresses \<Rightarrow> Addresses" where
  "Addresses_invoke OnOpenAdd c = onOpenAdd c"
| "Addresses_invoke OnCloseAdd c = onCloseAdd c"

subsection \<open>Contracts\<close>

record ContractsProps =
  con_balances :: balances
  con_accounts :: entries
  con_contracts :: entries
  con_hasContracts :: bool

record ContractsState =
  addContract :: bool
  deployContract :: bool

datatype ContractsHandler =
  OnAddContract | OnAddContractClose | OnDeployContract | OnDeployContractClose

type_synonym Contracts = "(ContractsProps, ContractsState) component"

definition Contracts_state :: ContractsState where
  "Contracts_state = \<lparr>addContract = False, deployContract = False\<rparr>"

definition Contracts_mount :: "ContractsProps \<Rightarrow> Contracts" where
  "Contracts_mount p = \<lparr>props = p, state = Contracts_state\<rparr>"

definition Contracts_renderActionbar :: 
  "(ContractsProps, ContractsState, 'z) component_scheme \<Rightarrow> ContractsHandler element" where
  "Contracts_renderActionbar c =
     (let buttons =
            [Button ''addContract'' ContentAdd ''watch contract'' OnAddContract,
             Button ''deployContract'' ContentAdd ''deploy contract'' OnDeployContract]
      in Actionbar ''toolbar'' ''Contracts'' buttons [])"

definition Contracts_renderAddContract :: 
  "(ContractsProps, ContractsState, 'z) component_scheme \<Rightarrow> ContractsHandler element" where
  "Contracts_renderAddContract c =
     (let contracts = con_contracts (props c); addContract = addContract (state c)
      in if \<not> addContract then Null
         else AddContract contracts OnAddContractClose)"

definition Contracts_renderDeployContract :: 
  "(ContractsProps, ContractsState, 'z) component_scheme \<Rightarrow> ContractsHandler element" where
  "Contracts_renderDeployContract c =
     (let accounts = con_accounts (props c); deployContract = deployContract (state c)
      in if \<not> deployContract then Null
         else DeployContract accounts OnDeployContractClose)"

definition Contracts_render :: 
  "(ContractsProps, ContractsState, 'z) component_scheme \<Rightarrow> ContractsHandler element" where
  "Contracts_render c =
     (let contracts = con_contracts (props c); hasContracts = con_hasContracts (props c);
          balances = con_balances (props c)
      in Div ''contracts''
           [Contracts_renderActionbar c,
            Contracts_renderAddContract c,
            Contracts_renderAddContract c,
            Contracts_renderDeployContract c,
            Page [ListE (Some ''contract'') contracts balances (\<not> hasContracts)]])"

definition onDeployContractClose :: "Contracts \<Rightarrow> Contracts" where
  "onDeployContractClose c = c\<lparr>state := (state c)\<lparr>deployContract := False\<rparr>\<rparr>"

definition onDeployContract :: "Contracts \<Rightarrow> Contracts" where
  "onDeployContract c = c\<lparr>state := (state c)\<lparr>deployContract := True\<rparr>\<rparr>"

definition onAddContractClose :: "Contracts \<Rightarrow> Contracts" where
  "onAddContractClose c = c\<lparr>state := (state c)\<lparr>addContract := False\<rparr>\<rparr>"

definition onAddContract :: "Contracts \<Rightarrow> Contracts" where
  "onAddContract c = c\<lparr>state := (state c)\<lparr>addContract := True\<rparr>\<rparr>"

fun Contracts_invoke :: "ContractsHandler \<Rightarrow> Contracts \<Rightarrow> Contracts" where
  "Contracts_invoke OnAddContract c = onAddContract c"
| "Contracts_invoke OnAddContractClose c = onAddContractClose c"
| "Contracts_invoke OnDeployContract c = onDeployContract c"
| "Contracts_invoke OnDeployContractClose c = onDeployContractClose c"

section \<open>The store projection\<close>

text \<open>
  The slices of the global state that \<^verbatim>\<open>mapStateToProps\<close> of the three views
  reads: \<^verbatim>\<open>state.personal\<close> and \<^verbatim>\<open>state.balances\<close>.
\<close>

record PersonalState =
  per_accounts :: entries
  per_hasAccounts :: bool
  per_contacts :: entries
  per_hasContacts :: bool
  per_contracts :: entries
  per_hasContracts :: bool

record BalancesState =
  bal_balances :: balances

record GlobalState =
  st_personal :: PersonalState
  st_balances :: BalancesState

definition Accounts_mapStateToProps :: "GlobalState \<Rightarrow> AccountsProps" where
  "Accounts_mapStateToProps st =
     (let accounts = per_accounts (st_personal st);
          hasAccounts = per_hasAccounts (st_personal st);
          balances = bal_balances (st_balances st)
      in \<lparr>acc_accounts = accounts, acc_hasAccounts = hasAccounts, acc_balances = balances\<rparr>)"

definition Addresses_mapStateToProps :: "GlobalState \<Rightarrow> AddressesProps" where
  "Addresses_mapStateToProps st =
     (let balances = bal_balances (st_balances st);
          contacts = per_contacts (st_personal st);
          hasContacts = per_hasContacts (st_personal st)
      in \<lparr>adr_balances = balances, adr_contacts = contacts, adr_hasContacts = hasContacts\<rparr>)"

definition Contracts_mapStateToProps :: "GlobalState \<Rightarrow> ContractsProps" where
  "Contracts_mapStateToProps st =
     (let accounts = per_accounts (st_personal st);
          contracts = per_contracts (st_personal st);
          hasContracts = per_hasContracts (st_personal st);
          balances = bal_balances (st_balances st)
      in \<lparr>con_balances = balances, con_accounts = accounts, con_contracts = contracts,
          con_hasContracts = hasContracts\<rparr>)"

text \<open>
  Modelled from the spec: the reducer of the store that fills \<^verbatim>\<open>state.personal\<close>
  is not among the source files. The spec's public contract of the view lists the
  emptiness input as derived, "true when no entries exist"; the views receive its
  negation as \<^verbatim>\<open>hasAccounts\<close>, \<^verbatim>\<open>hasContacts\<close> and
  \<^verbatim>\<open>hasContracts\<close>, so each flag is set when its collection has at least one key.
\<close>

definition provider_personal :: "entries \<Rightarrow> entries \<Rightarrow> entries \<Rightarrow> PersonalState" where
  "provider_personal accounts contacts contracts =
     \<lparr>per_accounts = accounts, per_hasAccounts = (Object_keys accounts \<noteq> []),
      per_contacts = contacts, per_hasContacts = (Object_keys contacts \<noteq> []),
      per_contracts = contracts, per_hasContracts = (Object_keys contracts \<noteq> [])\<rparr>"

definition provider_state :: "entries \<Rightarrow> entries \<Rightarrow> entries \<Rightarrow> balances \<Rightarrow> GlobalState" where
  "provider_state accounts contacts contracts balances =
     \<lparr>st_personal = provider_personal accounts contacts contracts,
      st_balances = \<lparr>bal_balances = balances\<rparr>\<rparr>"

section \<open>The mock helper of the ShapeShift tests\<close>

text \<open>The values a reply or a request body can hold.\<close>

datatype json = JNull | JBool bool | JNum real | JStr string | JArr "json list"
  | JObj "(string \<times> json) list"

datatype http_method = GET | POST

text \<open>\<^verbatim>\<open>scope.body\<close>: undefined, or an object from paths to request bodies.\<close>

type_synonym recorded = "(string \<rightharpoonup> json) option"

text \<open>
  Modelled from the spec: the HTTP-mocking library the helper is written against
  (\<^verbatim>\<open>nock\<close>) and the endpoint \<^verbatim>\<open>rpc.ENDPOINT\<close> are not among the source files.
  The spec describes the helper as registering mocked GET and POST responses against a
  fixed base endpoint and returning the composed mock scope. A scope is its base
  endpoint, the registered interceptors in registration order and the \<^verbatim>\<open>body\<close>
  property the helper attaches; \<^verbatim>\<open>scope.get(uri)\<close> and \<^verbatim>\<open>scope.post(uri)\<close>
  start an interceptor, \<^verbatim>\<open>.reply(code, fn)\<close> registers it and returns the scope. A
  request is answered by the first registered interceptor of its method and uri, which
  is used up: the status is the registered code and the body what the callback returns.
  A request nothing matches is an error of the library. The endpoint is a parameter of
  \<open>mockget\<close> and \<open>mockpost\<close>.
\<close>

record interceptor =
  i_method :: http_method
  i_uri :: string
  i_code :: int
  i_reply :: "string \<Rightarrow> json \<Rightarrow> recorded \<Rightarrow> json \<times> recorded"

record scope =
  basePath :: string
  interceptors :: "interceptor list"
  body :: recorded

record pending =
  p_scope :: scope
  p_method :: http_method
  p_uri :: string

record response =
  status :: int
  payload :: json

datatype nock_error = NoMatch

definition nock :: "string \<Rightarrow> scope" where
  "nock base = \<lparr>basePath = base, interceptors = [], body = None\<rparr>"

definition scope_get :: "scope \<Rightarrow> string \<Rightarrow> pending" where
  "scope_get sc uri = \<lparr>p_scope = sc, p_method = GET, p_uri = uri\<rparr>"

definition scope_post :: "scope \<Rightarrow> string \<Rightarrow> pending" where
  "scope_post sc uri = \<lparr>p_scope = sc, p_method = POST, p_uri = uri\<rparr>"

definition pending_reply ::
  "pending \<Rightarrow> int \<Rightarrow> (string \<Rightarrow> json \<Rightarrow> recorded \<Rightarrow> json \<times> recorded) \<Rightarrow> scope" where
  "pending_reply p c f =
     (p_scope p)\<lparr>interceptors := interceptors (p_scope p) @
        [\<lparr>i_method = p_method p, i_uri = p_uri p, i_code = c, i_reply = f\<rparr>]\<rparr>"

fun take_interceptor ::
  "http_method \<Rightarrow> string \<Rightarrow> interceptor list \<Rightarrow> (interceptor \<times> interceptor list) option" where
  "take_interceptor m uri [] = None"
| "take_interceptor m uri (i # is) =
     (if i_method i = m \<and> i_uri i = uri then Some (i, is)
      else case take_interceptor m uri is of
             None \<Rightarrow> None
           | Some (j, rest) \<Rightarrow> Some (j, i # rest))"

definition http_request ::
  "http_method \<Rightarrow> string \<Rightarrow> string \<Rightarrow> json \<Rightarrow> scope \<Rightarrow> nock_error + (response \<times> scope)" where
  "http_request m host uri sent sc =
     (if host \<noteq> basePath sc then Inl NoMatch
      else case take_interceptor m uri (interceptors sc) of
             None \<Rightarrow> Inl NoMatch
           | Some (i, rest) \<Rightarrow>
               (case i_reply i uri sent (body sc) of
                  (r, rec) \<Rightarrow>
                    Inr (\<lparr>status = i_code i, payload = r\<rparr>,
                         sc\<lparr>interceptors := rest, body := rec\<rparr>)))"

text \<open>A request descriptor \<^verbatim>\<open>{path, code?, reply}\<close>; \<open>code\<close> may be left out.\<close>

record request =
  path :: string
  code :: "int option"
  reply :: json

text \<open>
  \<^verbatim>\<open>request.code || 200\<close>: the right operand when the left one is undefined or
  the falsy number 0.
\<close>

definition js_or :: "int option \<Rightarrow> int \<Rightarrow> int" where
  "js_or v d = (case v of None \<Rightarrow> d | Some n \<Rightarrow> if n = 0 then d else n)"

text \<open>
  \<^verbatim>\<open>requests.forEach\<close> is a fold over the descriptors with the scope as the
  accumulator. The reply callback of \<open>mockget\<close> returns the descriptor's reply; that of
  \<open>mockpost\<close> first stores the request body in \<^verbatim>\<open>scope.body\<close> under the
  descriptor's path, creating the object when it is undefined.
\<close>

definition mockget :: "string \<Rightarrow> request list \<Rightarrow> scope" where
  "mockget ENDPOINT requests =
     fold (\<lambda>request scope.
             pending_reply (scope_get scope (''/'' @ path request))
               (js_or (code request) 200)
               (\<lambda>uri sent rec. (reply request, rec)))
       requests (nock ENDPOINT)"

definition mockpost :: "string \<Rightarrow> request list \<Rightarrow> scope" where
  "mockpost ENDPOINT requests =
     fold (\<lambda>request scope.
             pending_reply (scope_post scope (''/'' @ path request))
               (js_or (code request) 200)
               (\<lambda>uri sent rec.
                  (reply request,
                   Some ((case rec of None \<Rightarrow> Map.empty | Some m \<Rightarrow> m)
                           (path request \<mapsto> sent)))))
       requests (nock ENDPOINT)"

section \<open>Loading\<close>

text \<open>
  The props the function component receives, after the framework has filled every
  prop that was left undefined from \<^verbatim>\<open>Loading.defaultProps\<close>. JavaScript numbers
  are modelled as reals.
\<close>

record LoadingProps =
  ld_className :: string
  ld_size :: real
  ld_thickness :: real

text \<open>The attributes written at the use site; each may be left out.\<close>

record LoadingAttrs =
  at_className :: "string option"
  at_size :: "real option"
  at_thickness :: "real option"

definition Loading_defaultProps :: LoadingProps where
  "Loading_defaultProps = \<lparr>ld_className = '''', ld_size = 2, ld_thickness = 3.5\<rparr>"

definition resolveDefaultProps :: "LoadingProps \<Rightarrow> LoadingAttrs \<Rightarrow> LoadingProps" where
  "resolveDefaultProps defaults given =
     \<lparr>ld_className = (case at_className given of None \<Rightarrow> ld_className defaults | Some v \<Rightarrow> v),
      ld_size = (case at_size given of None \<Rightarrow> ld_size defaults | Some v \<Rightarrow> v),
      ld_thickness = (case at_thickness given of None \<Rightarrow> ld_thickness defaults | Some v \<Rightarrow> v)\<rparr>"

text \<open>\<^verbatim>\<open>Array.prototype.join\<close> on an array of strings.\<close>

fun Array_join :: "string list \<Rightarrow> string \<Rightarrow> string" where
  "Array_join [] sep = ''''"
| "Array_join [x] sep = x"
| "Array_join (x # y # ys) sep = x @ sep @ Array_join (y # ys) sep"

definition Loading :: "LoadingProps \<Rightarrow> 'h element" where
  "Loading p =
     Div (Array_join [''loading'', ld_className p] '' '')
       [CircularProgress (ld_size p * 60) (ld_thickness p)]"

section \<open>Sample inputs\<close>

definition sample_entries :: entries where
  "sample_entries = [(''0x00a329c0648769a73afac7f9381e08fb43dbea72'', ''first'')]"

definition sample_balances :: balances where
  "sample_balances = [(''0x00a329c0648769a73afac7f9381e08fb43dbea72'', 5)]"

definition sample_AccountsProps :: AccountsProps where
  "sample_AccountsProps =
     \<lparr>acc_accounts = sample_entries, acc_hasAccounts = True, acc_balances = sample_balances\<rparr>"

definition sample_AddressesProps :: AddressesProps where
  "sample_AddressesProps =
     \<lparr>adr_balances = sample_balances, adr_contacts = sample_entries, adr_hasContacts = True\<rparr>"

definition sample_ContractsProps :: ContractsProps where
  "sample_ContractsProps =
     \<lparr>con_balances = sample_balances, con_accounts = sample_entries,
      con_contracts = [], con_hasContracts = False\<rparr>"

text \<open>
  Instances with the dialog of the view open, under the api object of the given name.
\<close>

definition Accounts_under :: "string \<Rightarrow> (AccountsProps, AccountsState) mounted" where
  "Accounts_under n =
     \<lparr>props = sample_AccountsProps, state = \<lparr>addressBook = False, newDialog = True\<rparr>,
      this_context = \<lparr>api = n\<rparr>\<rparr>"

definition Addresses_under :: "string \<Rightarrow> (AddressesProps, AddressesState) mounted" where
  "Addresses_under n =
     \<lparr>props = sample_AddressesProps, state = \<lparr>showAdd = True\<rparr>,
      this_context = \<lparr>api = n\<rparr>\<rparr>"

definition Contracts_under :: "string \<Rightarrow> (ContractsProps, ContractsState) mounted" where
  "Contracts_under n =
     \<lparr>props = sample_ContractsProps, state = \<lparr>addContract = False, deployContract = True\<rparr>,
      this_context = \<lparr>api = n\<rparr>\<rparr>"

section \<open>What a render contains\<close>

lemma Accounts_modals:
  "modals (Accounts_render c) =
     (if newDialog (state c)
      then [CreateAccount (acc_accounts (props c)) OnNewAccountClose OnNewAccountUpdate]
      else [])"
  by (simp add: Accounts_render_def Accounts_renderNewDialog_def
      Accounts_renderActionbar_def)

lemma Addresses_modals:
  "modals (Addresses_render c) =
     (if showAdd (state c) then [AddAddress (adr_contacts (props c)) OnCloseAdd] else [])"
  by (simp add: Addresses_render_def Addresses_renderAddAddress_def
      Addresses_renderActionbar_def)

lemma Contracts_modals:
  "modals (Contracts_render c) =
     (if addContract (state c)
      then [AddContract (con_contracts (props c)) OnAddContractClose,
            AddContract (con_contracts (props c)) OnAddContractClose]
      else []) @
     (if deployContract (state c)
      then [DeployContract (con_accounts (props c)) OnDeployContractClose]
      else [])"
  by (simp add: Contracts_render_def Contracts_renderAddContract_def
      Contracts_renderDeployContract_def Contracts_renderActionbar_def)

lemma Accounts_onClick: "onClick_handlers (Accounts_render c) = [OnNewAccountClick]"
  by (simp add: Accounts_render_def Accounts_renderNewDialog_def
      Accounts_renderActionbar_def)

lemma Addresses_onClick: "onClick_handlers (Addresses_render c) = [OnOpenAdd]"
  by (simp add: Addresses_render_def Addresses_renderAddAddress_def
      Addresses_renderActionbar_def)

lemma Contracts_onClick:
  "onClick_handlers (Contracts_render c) = [OnAddContract, OnDeployContract]"
  by (simp add: Contracts_render_def Contracts_renderAddContract_def
      Contracts_renderDeployContract_def Contracts_renderActionbar_def)

lemma Accounts_list_empty:
  "list_empty_flags (Accounts_render c) = [\<not> acc_hasAccounts (props c)]"
  by (simp add: Accounts_render_def Accounts_renderNewDialog_def
      Accounts_renderActionbar_def)

lemma Addresses_list_empty:
  "list_empty_flags (Addresses_render c) = [\<not> adr_hasContacts (props c)]"
  by (simp add: Addresses_render_def Addresses_renderAddAddress_def
      Addresses_renderActionbar_def)

lemma Contracts_list_empty:
  "list_empty_flags (Contracts_render c) = [\<not> con_hasContracts (props c)]"
  by (simp add: Contracts_render_def Contracts_renderAddContract_def
      Contracts_renderDeployContract_def Contracts_renderActionbar_def)

section \<open>Repeated presses of one button\<close>

lemma Addresses_repeat_open:
  "fold Addresses_invoke (replicate (Suc n) OnOpenAdd) c = onOpenAdd c"
proof (induction n arbitrary: c)
  case 0
  show ?case by simp
next
  case (Suc n)
  have "fold Addresses_invoke (replicate (Suc (Suc n)) OnOpenAdd) c =
        fold Addresses_invoke (replicate (Suc n) OnOpenAdd) (onOpenAdd c)"
    by simp
  also have "\<dots> = onOpenAdd (onOpenAdd c)" by (rule Suc.IH)
  also have "\<dots> = onOpenAdd c" by (simp add: onOpenAdd_def)
  finally show ?case .
qed

lemma Contracts_repeat_deploy:
  "fold Contracts_invoke (replicate (Suc n) OnDeployContract) c = onDeployContract c"
proof (induction n arbitrary: c)
  case 0
  show ?case by simp
next
  case (Suc n)
  have "fold Contracts_invoke (replicate (Suc (Suc n)) OnDeployContract) c =
        fold Contracts_invoke (replicate (Suc n) OnDeployContract) (onDeployContract c)"
    by simp
  also have "\<dots> = onDeployContract (onDeployContract c)" by (rule Suc.IH)
  also have "\<dots> = onDeployContract c" by (simp add: onDeployContract_def)
  finally show ?case .
qed

lemma Contracts_repeat_add:
  "fold Contracts_invoke (replicate (Suc n) OnAddContract) c = onAddContract c"
proof (induction n arbitrary: c)
  case 0
  show ?case by simp
next
  case (Suc n)
  have "fold Contracts_invoke (replicate (Suc (Suc n)) OnAddContract) c =
        fold Contracts_invoke (replicate (Suc n) OnAddContract) (onAddContract c)"
    by simp
  also have "\<dots> = onAddContract (onAddContract c)" by (rule Suc.IH)
  also have "\<dots> = onAddContract c" by (simp add: onAddContract_def)
  finally show ?case .
qed

lemma onNewAccountClick_twice: "onNewAccountClick (onNewAccountClick c) = c"
  by (simp add: onNewAccountClick_def)

lemma Accounts_repeat_click:
  "fold Accounts_invoke (replicate n OnNewAccountClick) c =
     (if even n then c else onNewAccountClick c)"
proof -
  have "(Accounts_invoke OnNewAccountClick ^^ n) c =
          (if even n then c else onNewAccountClick c)"
    by (induction n) (simp_all add: onNewAccountClick_twice)
  then show ?thesis by simp
qed

lemma Accounts_even_clicks:
  "fold Accounts_invoke (replicate (2 * n) OnNewAccountClick) c = c"
  by (simp only: Accounts_repeat_click) simp

lemma Accounts_odd_clicks:
  "fold Accounts_invoke (replicate (Suc (2 * n)) OnNewAccountClick) c = onNewAccountClick c"
  by (simp only: Accounts_repeat_click) simp

section \<open>The address-book flag\<close>

lemma Accounts_invoke_addressBook:
  "addressBook (state (Accounts_invoke h c)) = addressBook (state c)"
  by (cases h) (simp_all add: onNewAccountClick_def onNewAccountClose_def
      onNewAccountUpdate_def)

lemma Accounts_fold_addressBook:
  "addressBook (state (fold Accounts_invoke hs c)) = addressBook (state c)"
  by (induction hs arbitrary: c) (simp_all add: Accounts_invoke_addressBook)

section \<open>Registered response codes\<close>

lemma mockget_fold_codes:
  "map i_code (interceptors (fold (\<lambda>request scope.
             pending_reply (scope_get scope (''/'' @ path request))
               (js_or (code request) 200)
               (\<lambda>uri sent rec. (reply request, rec))) rs sc)) =
   map i_code (interceptors sc) @ map (\<lambda>r. js_or (code r) 200) rs"
  by (induction rs arbitrary: sc) (simp_all add: pending_reply_def scope_get_def)

lemma mockpost_fold_codes:
  "map i_code (interceptors (fold (\<lambda>request scope.
             pending_reply (scope_post scope (''/'' @ path request))
               (js_or (code request) 200)
               (\<lambda>uri sent rec.
                  (reply request,
                   Some ((case rec of None \<Rightarrow> Map.empty | Some m \<Rightarrow> m)
                           (path request \<mapsto> sent))))) rs sc)) =
   map i_code (interceptors sc) @ map (\<lambda>r. js_or (code r) 200) rs"
  by (induction rs arbitrary: sc) (simp_all add: pending_reply_def scope_post_def)

section \<open>The claims\<close>

text \<open>
  C1, as stated, at a concrete input: in the Accounts view with the create-account dialog
  open (\<open>newDialog\<close> true), the handler of the "new account" button leaves no flag of
  the state true; and in the state with the dialog closed, the dialog's close callback
  sets \<open>newDialog\<close> to true instead of resetting it.
\<close>

theorem C1_press_in_open_state_clears_flag:
  "\<not> newDialog (state (Accounts_invoke OnNewAccountClick
        \<lparr>props = sample_AccountsProps, state = \<lparr>addressBook = False, newDialog = True\<rparr>\<rparr>)) \<and>
   \<not> addressBook (state (Accounts_invoke OnNewAccountClick
        \<lparr>props = sample_AccountsProps, state = \<lparr>addressBook = False, newDialog = True\<rparr>\<rparr>)) \<and>
   newDialog (state (Accounts_invoke OnNewAccountClose
        \<lparr>props = sample_AccountsProps, state = \<lparr>addressBook = False, newDialog = False\<rparr>\<rparr>))"
  by (simp add: onNewAccountClick_def onNewAccountClose_def)

text \<open>
  C1, amended: in the Addresses and Contracts views, for every state, the handler of each
  action-bar button sets the flag of its dialog to true and that dialog's close callback
  sets the same flag to false; neither touches another flag or the props. In the Accounts
  view the button's handler and the close callback both toggle \<open>newDialog\<close>: the press
  makes it true exactly when it was false, the close callback makes it false exactly when
  it was true, and \<open>addressBook\<close> and the props stay as they were.
\<close>

theorem C1_handlers_write_their_flag:
  "onClick_handlers (Addresses_render d) = [OnOpenAdd] \<and>
   showAdd (state (Addresses_invoke OnOpenAdd d)) \<and>
   props (Addresses_invoke OnOpenAdd d) = props d \<and>
   \<not> showAdd (state (Addresses_invoke OnCloseAdd d)) \<and>
   props (Addresses_invoke OnCloseAdd d) = props d \<and>
   onClick_handlers (Contracts_render k) = [OnAddContract, OnDeployContract] \<and>
   addContract (state (Contracts_invoke OnAddContract k)) \<and>
   deployContract (state (Contracts_invoke OnAddContract k)) = deployContract (state k) \<and>
   props (Contracts_invoke OnAddContract k) = props k \<and>
   \<not> addContract (state (Contracts_invoke OnAddContractClose k)) \<and>
   deployContract (state (Contracts_invoke OnAddContractClose k)) = deployContract (state k) \<and>
   props (Contracts_invoke OnAddContractClose k) = props k \<and>
   deployContract (state (Contracts_invoke OnDeployContract k)) \<and>
   addContract (state (Contracts_invoke OnDeployContract k)) = addContract (state k) \<and>
   props (Contracts_invoke OnDeployContract k) = props k \<and>
   \<not> deployContract (state (Contracts_invoke OnDeployContractClose k)) \<and>
   addContract (state (Contracts_invoke OnDeployContractClose k)) = addContract (state k) \<and>
   props (Contracts_invoke OnDeployContractClose k) = props k \<and>
   onClick_handlers (Accounts_render a) = [OnNewAccountClick] \<and>
   newDialog (state (Accounts_invoke OnNewAccountClick a)) = (\<not> newDialog (state a)) \<and>
   addressBook (state (Accounts_invoke OnNewAccountClick a)) = addressBook (state a) \<and>
   props (Accounts_invoke OnNewAccountClick a) = props a \<and>
   newDialog (state (Accounts_invoke OnNewAccountClose a)) = (\<not> newDialog (state a)) \<and>
   addressBook (state (Accounts_invoke OnNewAccountClose a)) = addressBook (state a) \<and>
   props (Accounts_invoke OnNewAccountClose a) = props a"
  by (simp add: Accounts_onClick Addresses_onClick Contracts_onClick
      onOpenAdd_def onCloseAdd_def onAddContract_def onAddContractClose_def
      onDeployContract_def onDeployContractClose_def onNewAccountClick_def
      onNewAccountClose_def)

text \<open>
  C2, as stated, at a concrete input: in the Accounts view, the sequence of two presses
  of the "new account" button applied to the initial state is followed by a render with
  no modal element at all.
\<close>

theorem C2_two_presses_render_no_modal:
  "modals (Accounts_render
     (fold Accounts_invoke [OnNewAccountClick, OnNewAccountClick]
        (Accounts_mount sample_AccountsProps))) = []"
  by (simp add: Accounts_modals onNewAccountClick_def Accounts_mount_def Accounts_state_def)

text \<open>
  C2, amended: applied to the initial state,
  \<^item> any positive number of presses of "new address" is followed by a render whose only
    modal is the add-address dialog, passed the \<open>contacts\<close> prop unchanged;
  \<^item> an odd number of presses of "new account" is followed by a render whose only modal
    is the create-account dialog, passed the \<open>accounts\<close> prop unchanged, and an even
    number by a render with no modal (the handler toggles);
  \<^item> any positive number of presses of "deploy contract" is followed by a render whose
    only modal is the deploy dialog, passed the \<open>accounts\<close> prop unchanged;
  \<^item> any positive number of presses of "watch contract" is followed by a render in
    which every modal is the add-contract dialog passed the \<open>contracts\<close> prop unchanged
    (how many times it occurs is left open).

  No dialog is passed the balances.
\<close>

theorem C2_open_renders_dialog_with_entries:
  "modals (Addresses_render
      (fold Addresses_invoke (replicate (Suc n) OnOpenAdd) (Addresses_mount pd))) =
     [AddAddress (adr_contacts pd) OnCloseAdd] \<and>
   modals (Accounts_render
      (fold Accounts_invoke (replicate (Suc (2 * n)) OnNewAccountClick) (Accounts_mount pa))) =
     [CreateAccount (acc_accounts pa) OnNewAccountClose OnNewAccountUpdate] \<and>
   modals (Accounts_render
      (fold Accounts_invoke (replicate (2 * n) OnNewAccountClick) (Accounts_mount pa))) = [] \<and>
   modals (Contracts_render
      (fold Contracts_invoke (replicate (Suc n) OnDeployContract) (Contracts_mount pc))) =
     [DeployContract (con_accounts pc) OnDeployContractClose] \<and>
   set (modals (Contracts_render
      (fold Contracts_invoke (replicate (Suc n) OnAddContract) (Contracts_mount pc)))) =
     {AddContract (con_contracts pc) OnAddContractClose}"
  unfolding Addresses_repeat_open Accounts_odd_clicks Accounts_even_clicks
    Contracts_repeat_deploy Contracts_repeat_add
  by (simp add: Accounts_modals Addresses_modals Contracts_modals
      onOpenAdd_def onNewAccountClick_def onDeployContract_def onAddContract_def
      Accounts_mount_def Addresses_mount_def Contracts_mount_def
      Accounts_state_def Addresses_state_def Contracts_state_def)

text \<open>
  C3, as stated, at a concrete input: in the Contracts view, in the state reached from
  the initial one by pressing "watch contract" and then "deploy contract", the close
  callback of the add-contract dialog yields a state whose render still contains the
  deploy dialog.
\<close>

theorem C3_other_dialog_stays_open:
  "modals (Contracts_render
     (Contracts_invoke OnAddContractClose
        (fold Contracts_invoke [OnAddContract, OnDeployContract]
           (Contracts_mount sample_ContractsProps)))) =
   [DeployContract sample_entries OnDeployContractClose]"
  by (simp add: Contracts_modals onAddContract_def onDeployContract_def
      onAddContractClose_def Contracts_mount_def Contracts_state_def
      sample_ContractsProps_def)

text \<open>
  C3, amended: the close callback of a dialog that is open yields a state in which that
  dialog is not rendered, and in which no modal is rendered when no other dialog's flag
  is set. In Addresses that is every state; in Accounts every state with \<open>newDialog\<close>
  true (the callback toggles); in Contracts the other dialog stays rendered when its flag
  is set.
\<close>

theorem C3_close_of_open_dialog:
  "modals (Addresses_render (Addresses_invoke OnCloseAdd d)) = [] \<and>
   (newDialog (state a) \<longrightarrow>
      modals (Accounts_render (Accounts_invoke OnNewAccountClose a)) = []) \<and>
   (\<not> deployContract (state k) \<longrightarrow>
      modals (Contracts_render (Contracts_invoke OnAddContractClose k)) = []) \<and>
   (\<not> addContract (state k') \<longrightarrow>
      modals (Contracts_render (Contracts_invoke OnDeployContractClose k')) = []) \<and>
   modals (Contracts_render (Contracts_invoke OnAddContractClose k)) =
     (if deployContract (state k)
      then [DeployContract (con_accounts (props k)) OnDeployContractClose] else []) \<and>
   set (modals (Contracts_render (Contracts_invoke OnDeployContractClose k'))) =
     (if addContract (state k')
      then {AddContract (con_contracts (props k')) OnAddContractClose} else {})"
  by (simp add: Accounts_modals Addresses_modals Contracts_modals
      onCloseAdd_def onNewAccountClose_def onNewAccountClick_def
      onAddContractClose_def onDeployContractClose_def)

text \<open>
  C3, witness: the amended claim at the states reached from the initial one by one press
  of "new account", of "watch contract" and of "deploy contract".
\<close>

theorem C3_close_of_open_dialog_witness:
  "newDialog (state (onNewAccountClick (Accounts_mount sample_AccountsProps))) \<and>
   modals (Accounts_render (Accounts_invoke OnNewAccountClose
     (onNewAccountClick (Accounts_mount sample_AccountsProps)))) = [] \<and>
   \<not> deployContract (state (onAddContract (Contracts_mount sample_ContractsProps))) \<and>
   modals (Contracts_render (Contracts_invoke OnAddContractClose
     (onAddContract (Contracts_mount sample_ContractsProps)))) = [] \<and>
   \<not> addContract (state (onDeployContract (Contracts_mount sample_ContractsProps))) \<and>
   modals (Contracts_render (Contracts_invoke OnDeployContractClose
     (onDeployContract (Contracts_mount sample_ContractsProps)))) = []"
  using C3_close_of_open_dialog
    [of "onOpenAdd (Addresses_mount sample_AddressesProps)"
        "onNewAccountClick (Accounts_mount sample_AccountsProps)"
        "onAddContract (Contracts_mount sample_ContractsProps)"
        "onDeployContract (Contracts_mount sample_ContractsProps)"]
  by (simp add: onNewAccountClick_def onAddContract_def onDeployContract_def
      Accounts_mount_def Contracts_mount_def Accounts_state_def Contracts_state_def)

text \<open>
  C4: for every view instance, the state created at mount has every dialog-open flag
  false, and rendering the freshly mounted instance produces no modal element.
\<close>

theorem C4_initial_state_closed:
  "\<not> addressBook (state (Accounts_mount pa)) \<and> \<not> newDialog (state (Accounts_mount pa)) \<and>
   modals (Accounts_render (Accounts_mount pa)) = [] \<and>
   \<not> showAdd (state (Addresses_mount pd)) \<and>
   modals (Addresses_render (Addresses_mount pd)) = [] \<and>
   \<not> addContract (state (Contracts_mount pc)) \<and>
   \<not> deployContract (state (Contracts_mount pc)) \<and>
   modals (Contracts_render (Contracts_mount pc)) = []"
  by (simp add: Accounts_modals Addresses_modals Contracts_modals
      Accounts_mount_def Addresses_mount_def Contracts_mount_def
      Accounts_state_def Addresses_state_def Contracts_state_def)

text \<open>
  C5: for every entries collection and every view, the emptiness flag passed to the list
  collaborator is true if and only if the collection has zero keys. Each view passes
  exactly one flag, the negation of its \<open>has\<close> prop, whatever the props are; with the
  props projected from a store state as the provider builds it, that flag is true
  exactly when the view's collection has no key.
\<close>

theorem C5_empty_flag_iff_no_keys:
  "list_empty_flags (Accounts_render a) = [\<not> acc_hasAccounts (props a)] \<and>
   list_empty_flags (Addresses_render d) = [\<not> adr_hasContacts (props d)] \<and>
   list_empty_flags (Contracts_render k) = [\<not> con_hasContracts (props k)] \<and>
   list_empty_flags (Accounts_render
      \<lparr>props = Accounts_mapStateToProps (provider_state accounts contacts contracts bs),
       state = sa\<rparr>) = [Object_keys accounts = []] \<and>
   list_empty_flags (Addresses_render
      \<lparr>props = Addresses_mapStateToProps (provider_state accounts contacts contracts bs),
       state = sd\<rparr>) = [Object_keys contacts = []] \<and>
   list_empty_flags (Contracts_render
      \<lparr>props = Contracts_mapStateToProps (provider_state accounts contacts contracts bs),
       state = sk\<rparr>) = [Object_keys contracts = []]"
  by (simp add: Accounts_list_empty Addresses_list_empty Contracts_list_empty
      Accounts_mapStateToProps_def Addresses_mapStateToProps_def
      Contracts_mapStateToProps_def provider_state_def provider_personal_def)

text \<open>
  C6: with \<open>E\<close> the configured endpoint, the scope of
  \<^verbatim>\<open>mockget([{path: 'rate', reply: {rate: 1}}])\<close> answers a GET of \<^verbatim>\<open>/rate\<close> with
  status 200 and body \<^verbatim>\<open>{rate: 1}\<close>; the scope of
  \<^verbatim>\<open>mockpost([{path: 'send', code: 201, reply: {ok: true}}])\<close> answers a POST of
  \<^verbatim>\<open>/send\<close> with status 201 and body \<^verbatim>\<open>{ok: true}\<close> and records the request
  body under \<^verbatim>\<open>scope.body['send']\<close>; and in both functions a descriptor without a
  code is registered, and answered, with status 200.
\<close>

theorem C6_mock_helper:
  "http_request GET E ''/rate'' sent
      (mockget E [\<lparr>path = ''rate'', code = None, reply = JObj [(''rate'', JNum 1)]\<rparr>]) =
     Inr (\<lparr>status = 200, payload = JObj [(''rate'', JNum 1)]\<rparr>, nock E) \<and>
   http_request POST E ''/send'' sent
      (mockpost E [\<lparr>path = ''send'', code = Some 201, reply = JObj [(''ok'', JBool True)]\<rparr>]) =
     Inr (\<lparr>status = 201, payload = JObj [(''ok'', JBool True)]\<rparr>,
          \<lparr>basePath = E, interceptors = [], body = Some [''send'' \<mapsto> sent]\<rparr>) \<and>
   http_request GET E (''/'' @ p) sent (mockget E [\<lparr>path = p, code = None, reply = r\<rparr>]) =
     Inr (\<lparr>status = 200, payload = r\<rparr>, nock E) \<and>
   http_request POST E (''/'' @ p) sent (mockpost E [\<lparr>path = p, code = None, reply = r\<rparr>]) =
     Inr (\<lparr>status = 200, payload = r\<rparr>, (nock E)\<lparr>body := Some [p \<mapsto> sent]\<rparr>) \<and>
   map i_code (interceptors (mockget E rs)) =
     map (\<lambda>d. case code d of None \<Rightarrow> 200 | Some n \<Rightarrow> if n = 0 then 200 else n) rs \<and>
   map i_code (interceptors (mockpost E rs)) =
     map (\<lambda>d. case code d of None \<Rightarrow> 200 | Some n \<Rightarrow> if n = 0 then 200 else n) rs"
  unfolding mockget_def mockpost_def mockget_fold_codes mockpost_fold_codes
  by (simp add: http_request_def nock_def pending_reply_def scope_get_def
      scope_post_def js_or_def)

text \<open>
  C7: for every view, two render invocations with equal props and equal state produce
  identical render trees. The render method is applied to the instance; the instances
  of the two invocations may differ in everything they carry beside props and state
  (their context, or any other extension of the instance), and the trees are still the
  same: the tree is read from props and state alone.
\<close>

theorem C7_render_reads_props_and_state:
  "(props a = props a' \<and> state a = state a' \<longrightarrow> Accounts_render a = Accounts_render a') \<and>
   (props d = props d' \<and> state d = state d' \<longrightarrow> Addresses_render d = Addresses_render d') \<and>
   (props k = props k' \<and> state k = state k' \<longrightarrow> Contracts_render k = Contracts_render k')"
  by (simp add: Accounts_render_def Accounts_renderNewDialog_def Accounts_renderActionbar_def
      Addresses_render_def Addresses_renderAddAddress_def Addresses_renderActionbar_def
      Contracts_render_def Contracts_renderAddContract_def Contracts_renderDeployContract_def
      Contracts_renderActionbar_def)

text \<open>
  C7, witness: each view rendered, with its dialog open, on two instances that have the
  same props and state and different api objects in their context.
\<close>

theorem C7_render_reads_props_and_state_witness:
  "Accounts_under ''first'' \<noteq> Accounts_under ''second'' \<and>
   props (Accounts_under ''first'') = props (Accounts_under ''second'') \<and>
   state (Accounts_under ''first'') = state (Accounts_under ''second'') \<and>
   Accounts_render (Accounts_under ''first'') = Accounts_render (Accounts_under ''second'') \<and>
   Addresses_under ''first'' \<noteq> Addresses_under ''second'' \<and>
   props (Addresses_under ''first'') = props (Addresses_under ''second'') \<and>
   state (Addresses_under ''first'') = state (Addresses_under ''second'') \<and>
   Addresses_render (Addresses_under ''first'') = Addresses_render (Addresses_under ''second'') \<and>
   Contracts_under ''first'' \<noteq> Contracts_under ''second'' \<and>
   props (Contracts_under ''first'') = props (Contracts_under ''second'') \<and>
   state (Contracts_under ''first'') = state (Contracts_under ''second'') \<and>
   Contracts_render (Contracts_under ''first'') = Contracts_render (Contracts_under ''second'')"
  using C7_render_reads_props_and_state
    [of "Accounts_under ''first''" "Accounts_under ''second''"
        "Addresses_under ''first''" "Addresses_under ''second''"
        "Contracts_under ''first''" "Contracts_under ''second''"]
  by (simp add: Accounts_under_def Addresses_under_def Contracts_under_def)

text \<open>
  C8: in the Accounts view, the handler supplied to the create-account dialog as
  \<^verbatim>\<open>onUpdate\<close> is \<open>onNewAccountUpdate\<close>, and invoking it in any state leaves the
  instance, that is its state and its props, unchanged.
\<close>

theorem C8_onUpdate_noop:
  "onNewAccountUpdate a = a \<and>
   Accounts_invoke OnNewAccountUpdate a = a \<and>
   state (Accounts_invoke OnNewAccountUpdate a) = state a \<and>
   props (Accounts_invoke OnNewAccountUpdate a) = props a \<and>
   Accounts_renderNewDialog (a\<lparr>state := (state a)\<lparr>newDialog := True\<rparr>\<rparr>) =
     CreateAccount (acc_accounts (props a)) OnNewAccountClose OnNewAccountUpdate"
  by (simp add: onNewAccountUpdate_def Accounts_renderNewDialog_def)

text \<open>
  C9: in the Accounts view, \<open>addressBook\<close> is false at mount and after every sequence
  of handler invocations, and the render tree is the same whatever its value.
\<close>

theorem C9_addressBook_never_set:
  "\<not> addressBook (state (Accounts_mount p)) \<and>
   \<not> addressBook (state (fold Accounts_invoke hs (Accounts_mount p))) \<and>
   Accounts_render (c\<lparr>state := (state c)\<lparr>addressBook := b\<rparr>\<rparr>) = Accounts_render c"
  by (simp add: Accounts_fold_addressBook Accounts_mount_def Accounts_state_def
      Accounts_render_def Accounts_renderNewDialog_def Accounts_renderActionbar_def)

text \<open>
  C10: \<open>Loading\<close> passes sixty times its size prop, and its thickness prop as it is, to
  the spinner; the default props are the empty class name, size 2 and thickness 3.5; so
  with no attribute given the spinner has size 120 and thickness 3.5.
\<close>

theorem C10_loading_defaults:
  "Loading p = Div (''loading '' @ ld_className p)
                 [CircularProgress (60 * ld_size p) (ld_thickness p)] \<and>
   Loading_defaultProps = \<lparr>ld_className = '''', ld_size = 2, ld_thickness = 7 / 2\<rparr> \<and>
   Loading (resolveDefaultProps Loading_defaultProps
              \<lparr>at_className = None, at_size = None, at_thickness = None\<rparr>) =
     Div ''loading '' [CircularProgress 120 (7 / 2)]"
  by (simp add: Loading_def Loading_defaultProps_def resolveDefaultProps_def)

end
